theory Spec2Isabelle
  imports Main "HOL-Library.Word"
begin

section \<open>JavaScript strings\<close>

text \<open>
  A JavaScript string is a sequence of UTF-16 code units. All the string operations the
  service uses (\<open>trim\<close>, \<open>startsWith\<close>, \<open>||\<close>, template literals, \<open>join\<close>) work on code
  units, so a string is a list of 16-bit words. \<open>js\<close> writes an ASCII literal.
\<close>

type_synonym code_unit = "16 word"
type_synonym jsstring = "code_unit list"

definition js :: "string \<Rightarrow> jsstring" where
  "js s = map (\<lambda>c. of_nat (of_char c)) s"

definition LF :: code_unit where
  "LF = 0x0A"

definition DQUOTE :: code_unit where
  "DQUOTE = 0x22"

definition EN_DASH :: code_unit where
  \<comment> \<open>U+2013, the dash between the two times of a timeline line\<close>
  "EN_DASH = 0x2013"

definition isWhiteSpace :: "code_unit \<Rightarrow> bool" where
  \<comment> \<open>ECMAScript WhiteSpace and LineTerminator, the code units \<open>String.prototype.trim\<close> strips\<close>
  "isWhiteSpace c =
     (c = 0x0009 \<or> c = 0x000A \<or> c = 0x000B \<or> c = 0x000C \<or> c = 0x000D \<or> c = 0x0020
      \<or> c = 0x00A0 \<or> c = 0x1680 \<or> (0x2000 \<le> c \<and> c \<le> 0x200A) \<or> c = 0x2028
      \<or> c = 0x2029 \<or> c = 0x202F \<or> c = 0x205F \<or> c = 0x3000 \<or> c = 0xFEFF)"

definition trim :: "jsstring \<Rightarrow> jsstring" where
  "trim s = rev (dropWhile isWhiteSpace (rev (dropWhile isWhiteSpace s)))"

definition startsWith :: "jsstring \<Rightarrow> jsstring \<Rightarrow> bool" where
  "startsWith s p = (take (length p) s = p)"

definition truthy :: "jsstring \<Rightarrow> bool" where
  \<comment> \<open>a string in a boolean position: only the empty string is falsy\<close>
  "truthy s = (s \<noteq> [])"

definition or_else :: "jsstring \<Rightarrow> jsstring \<Rightarrow> jsstring" where
  \<comment> \<open>\<open>s || d\<close> on strings\<close>
  "or_else s d = (if truthy s then s else d)"

fun join :: "jsstring \<Rightarrow> jsstring list \<Rightarrow> jsstring" where
  \<comment> \<open>\<open>Array.prototype.join\<close> on an array of strings\<close>
  "join sep [] = []"
| "join sep [x] = x"
| "join sep (x # y # ys) = x @ sep @ join sep (y # ys)"

definition push :: "'a list \<Rightarrow> 'a \<Rightarrow> 'a list" where
  "push xs x = xs @ [x]"


section \<open>The input of \<open>generateVeoPrompt\<close>\<close>

record Action =
  startTime :: jsstring
  endTime :: jsstring
  description :: jsstring

record TimedDialogue =
  startTime :: jsstring
  endTime :: jsstring
  dialogueText :: jsstring

record Image =
  data :: jsstring
  mimeType :: jsstring

record VeoPromptInput =
  actions :: "Action list"
  timedDialogues :: "TimedDialogue list"
  cameraMovement :: jsstring
  tone :: jsstring
  image :: "Image option"


section \<open>The parts of the request\<close>

datatype Part =
    InlineData jsstring jsstring  \<comment> \<open>\<open>{ inlineData: { mimeType, data } }\<close>\<close>
  | Text jsstring                 \<comment> \<open>\<open>{ text }\<close>\<close>

definition hasValidAction :: "Action list \<Rightarrow> bool" where
  "hasValidAction as = list_ex (\<lambda>a. truthy (trim (description a))) as"

definition hasValidDialogue :: "TimedDialogue list \<Rightarrow> bool" where
  "hasValidDialogue ds = list_ex (\<lambda>d. truthy (trim (dialogueText d))) ds"

definition action_line :: "Action \<Rightarrow> jsstring" where
  "action_line a =
     js ''- '' @ or_else (Action.startTime a) (js ''0'') @ [EN_DASH]
       @ or_else (Action.endTime a) (js ''?'') @ js '' sec: '' @ trim (description a)"

definition dialogue_line :: "TimedDialogue \<Rightarrow> jsstring" where
  "dialogue_line d =
     js ''- '' @ or_else (TimedDialogue.startTime d) (js ''0'') @ [EN_DASH]
       @ or_else (TimedDialogue.endTime d) (js ''?'') @ js '' sec: '' @ [DQUOTE]
       @ trim (dialogueText d) @ [DQUOTE]"

definition timeline :: "Action list \<Rightarrow> jsstring" where
  "timeline as =
     join [LF] (map action_line (filter (\<lambda>a. truthy (trim (description a))) as))"

definition dialogueTimeline :: "TimedDialogue list \<Rightarrow> jsstring" where
  "dialogueTimeline ds =
     join [LF] (map dialogue_line (filter (\<lambda>d. truthy (trim (dialogueText d))) ds))"

definition parts :: "VeoPromptInput \<Rightarrow> Part list" where
  \<comment> \<open>the array \<open>parts\<close> as it stands when the request is built, push by push\<close>
  "parts inp =
     (let p0 = [];
          p1 = (case image inp of
                  Some img \<Rightarrow>
                    push (push p0 (InlineData (mimeType img) (data img)))
                      (Text (js ''The user has provided the above image as a visual reference.''))
                | None \<Rightarrow> p0);
          p2 = (if hasValidAction (actions inp)
                then push p1 (Text (js ''ACTION TIMELINE:'' @ [LF] @ timeline (actions inp)))
                else p1);
          p3 = (if hasValidDialogue (timedDialogues inp)
                then push p2 (Text (js ''DIALOGUE TIMELINE (IN INDONESIAN):'' @ [LF]
                                      @ dialogueTimeline (timedDialogues inp)))
                else p2);
          p4 = (if truthy (cameraMovement inp) \<and> cameraMovement inp \<noteq> js ''Automatic''
                then push p3 (Text (js ''CAMERA MOVEMENT PREFERENCE: '' @ cameraMovement inp))
                else p3);
          p5 = (if truthy (tone inp) \<and> tone inp \<noteq> js ''Automatic''
                then push p4 (Text (js ''TONE PREFERENCE: '' @ tone inp))
                else p4)
      in p5)"


section \<open>\<open>JSON.parse\<close>\<close>

text \<open>
  \<open>JSON.parse\<close> and \<open>JSON.stringify\<close> belong to the language, not to the repository; they
  are modelled after ECMA-262 (ES2019 and later). A parsed number keeps the exact value of
  its literal, \<open>(-1)\<^sup>s * m * 10\<^sup>e\<close>, as \<open>JNumber s m e\<close>; rounding to a double is not
  modelled. An object is the list of its own properties in the order in which
  \<open>JSON.stringify\<close> enumerates them (array indices ascending, then the other keys in
  order of creation). Limits of an engine on the nesting depth are not modelled.
\<close>

datatype json =
    JNull
  | JBool bool
  | JNumber bool nat int
  | JString jsstring
  | JArray "json list"
  | JObject "(jsstring \<times> json) list"

definition isDigit :: "code_unit \<Rightarrow> bool" where
  "isDigit c = (0x30 \<le> c \<and> c \<le> 0x39)"

definition digits_value :: "jsstring \<Rightarrow> nat" where
  "digits_value ds = foldl (\<lambda>n c. 10 * n + (unat c - 48)) 0 ds"

definition hex_value :: "code_unit \<Rightarrow> code_unit option" where
  "hex_value c =
     (if 0x30 \<le> c \<and> c \<le> 0x39 then Some (c - 0x30)
      else if 0x41 \<le> c \<and> c \<le> 0x46 then Some (c - 0x37)
      else if 0x61 \<le> c \<and> c \<le> 0x66 then Some (c - 0x57)
      else None)"

fun hex4 :: "jsstring \<Rightarrow> code_unit option" where
  "hex4 [a, b, c, d] =
     (case (hex_value a, hex_value b, hex_value c, hex_value d) of
        (Some x, Some y, Some z, Some w) \<Rightarrow> Some (0x1000 * x + 0x100 * y + 0x10 * z + w)
      | _ \<Rightarrow> None)"
| "hex4 _ = None"

definition escape :: "code_unit \<Rightarrow> code_unit option" where
  "escape e =
     (if e = 0x22 then Some 0x22
      else if e = 0x5C then Some 0x5C
      else if e = 0x2F then Some 0x2F
      else if e = 0x62 then Some 0x08
      else if e = 0x66 then Some 0x0C
      else if e = 0x6E then Some 0x0A
      else if e = 0x72 then Some 0x0D
      else if e = 0x74 then Some 0x09
      else None)"

fun string_chars :: "jsstring \<Rightarrow> (jsstring \<times> nat) option" where
  \<comment> \<open>the rest of a string literal after its opening quotation mark: the string it denotes
      and the number of code units read, closing quotation mark included\<close>
  "string_chars [] = None"
| "string_chars (c # cs) =
     (if c = 0x22 then Some ([], 1)
      else if c < 0x20 then None
      else if c = 0x5C then
        (case cs of
           [] \<Rightarrow> None
         | e # es \<Rightarrow>
             if e = 0x75 then
               (case hex4 (take 4 es) of
                  None \<Rightarrow> None
                | Some u \<Rightarrow>
                    (case string_chars (drop 4 es) of
                       None \<Rightarrow> None
                     | Some (s, n) \<Rightarrow> Some (u # s, n + 6)))
             else
               (case escape e of
                  None \<Rightarrow> None
                | Some u \<Rightarrow>
                    (case string_chars es of
                       None \<Rightarrow> None
                     | Some (s, n) \<Rightarrow> Some (u # s, n + 2))))
      else
        (case string_chars cs of
           None \<Rightarrow> None
         | Some (s, n) \<Rightarrow> Some (c # s, n + 1)))"

definition scan_number :: "jsstring \<Rightarrow> (json \<times> nat) option" where
  \<comment> \<open>a number literal at the head of the text: \<open>-? (0 | [1-9][0-9]*) (.[0-9]+)? ([eE][+-]?[0-9]+)?\<close>,
      with the number of code units read\<close>
  "scan_number s =
     (let neg = startsWith s (js ''-'');
          s1 = (if neg then tl s else s);
          ip = takeWhile isDigit s1;
          s2 = dropWhile isDigit s1;
          has_frac = startsWith s2 (js ''.'');
          fp = (if has_frac then takeWhile isDigit (tl s2) else []);
          s3 = (if has_frac then dropWhile isDigit (tl s2) else s2);
          has_exp = (startsWith s3 (js ''e'') \<or> startsWith s3 (js ''E''));
          s4 = (if has_exp then tl s3 else s3);
          exp_neg = (has_exp \<and> startsWith s4 (js ''-''));
          has_sign = (has_exp \<and> (startsWith s4 (js ''-'') \<or> startsWith s4 (js ''+'')));
          s5 = (if has_sign then tl s4 else s4);
          ep = (if has_exp then takeWhile isDigit s5 else [])
      in if ip = [] \<or> (length ip > 1 \<and> hd ip = 0x30) then None
         else if has_frac \<and> fp = [] then None
         else if has_exp \<and> ep = [] then None
         else Some (JNumber neg (digits_value (ip @ fp))
                      ((if exp_neg then - int (digits_value ep) else int (digits_value ep))
                         - int (length fp)),
                    (if neg then 1 else 0) + length ip
                      + (if has_frac then 1 + length fp else 0)
                      + (if has_exp then 1 + (if has_sign then 1 else 0) + length ep else 0)))"


datatype token = LBRACE | RBRACE | LBRACKET | RBRACKET | COLON | COMMA | ATOM json

fun tokenize :: "jsstring \<Rightarrow> token list option" where
  "tokenize [] = Some []"
| "tokenize (c # cs) =
     (if c = 0x09 \<or> c = 0x0A \<or> c = 0x0D \<or> c = 0x20 then tokenize cs
      else if c = 0x7B then map_option (Cons LBRACE) (tokenize cs)
      else if c = 0x7D then map_option (Cons RBRACE) (tokenize cs)
      else if c = 0x5B then map_option (Cons LBRACKET) (tokenize cs)
      else if c = 0x5D then map_option (Cons RBRACKET) (tokenize cs)
      else if c = 0x3A then map_option (Cons COLON) (tokenize cs)
      else if c = 0x2C then map_option (Cons COMMA) (tokenize cs)
      else if c = 0x22 then
        (case string_chars cs of
           None \<Rightarrow> None
         | Some (s, n) \<Rightarrow> map_option (Cons (ATOM (JString s))) (tokenize (drop n cs)))
      else if c = 0x2D \<or> isDigit c then
        (case scan_number (c # cs) of
           None \<Rightarrow> None
         | Some (v, n) \<Rightarrow> map_option (Cons (ATOM v)) (tokenize (drop (n - 1) cs)))
      else if startsWith (c # cs) (js ''true'') then
        map_option (Cons (ATOM (JBool True))) (tokenize (drop 3 cs))
      else if startsWith (c # cs) (js ''false'') then
        map_option (Cons (ATOM (JBool False))) (tokenize (drop 4 cs))
      else if startsWith (c # cs) (js ''null'') then
        map_option (Cons (ATOM JNull)) (tokenize (drop 3 cs))
      else None)"

definition array_index :: "jsstring \<Rightarrow> nat option" where
  \<comment> \<open>a property key that is an array index: a canonical numeral below \<open>2\<^sup>3\<^sup>2 - 1\<close>\<close>
  "array_index k =
     (if k \<noteq> [] \<and> list_all isDigit k \<and> (length k = 1 \<or> hd k \<noteq> 0x30)
         \<and> digits_value k < 2 ^ 32 - 1
      then Some (digits_value k) else None)"

definition precedes :: "nat \<Rightarrow> jsstring \<times> json \<Rightarrow> bool" where
  "precedes i m = (case array_index (fst m) of Some j \<Rightarrow> j < i | None \<Rightarrow> False)"

definition define_property ::
  "(jsstring \<times> json) list \<Rightarrow> jsstring \<Rightarrow> json \<Rightarrow> (jsstring \<times> json) list" where
  \<comment> \<open>\<open>CreateDataProperty\<close>: a key that is present keeps its place and takes the new value; a
      new array index goes among the indices, in ascending order; any other new key goes last\<close>
  "define_property ms k v =
     (if list_ex (\<lambda>m. fst m = k) ms
      then map (\<lambda>m. if fst m = k then (k, v) else m) ms
      else (case array_index k of
              None \<Rightarrow> ms @ [(k, v)]
            | Some i \<Rightarrow> takeWhile (precedes i) ms @ [(k, v)] @ dropWhile (precedes i) ms))"

text \<open>
  The grammar is checked by a machine with a stack of the arrays and objects that are open,
  stepping through the tokens.
\<close>

datatype frame =
    InArray "json list"
  | InObject "(jsstring \<times> json) list"
  | InMember "(jsstring \<times> json) list" jsstring

datatype expect =
    ExpectValue
  | ExpectValueOrEnd
  | ExpectKey
  | ExpectKeyOrEnd
  | ExpectColon jsstring
  | AfterValue
  | Finished json

fun reduce :: "frame list \<Rightarrow> json \<Rightarrow> (frame list \<times> expect) option" where
  "reduce [] v = Some ([], Finished v)"
| "reduce (InArray vs # st) v = Some (InArray (vs @ [v]) # st, AfterValue)"
| "reduce (InMember ms k # st) v = Some (InObject (define_property ms k v) # st, AfterValue)"
| "reduce (InObject ms # st) v = None"

fun close_array :: "frame list \<Rightarrow> (frame list \<times> expect) option" where
  "close_array (InArray vs # st) = reduce st (JArray vs)"
| "close_array _ = None"

fun close_object :: "frame list \<Rightarrow> (frame list \<times> expect) option" where
  "close_object (InObject ms # st) = reduce st (JObject ms)"
| "close_object _ = None"

fun value_token :: "frame list \<Rightarrow> token \<Rightarrow> (frame list \<times> expect) option" where
  "value_token st (ATOM v) = reduce st v"
| "value_token st LBRACKET = Some (InArray [] # st, ExpectValueOrEnd)"
| "value_token st LBRACE = Some (InObject [] # st, ExpectKeyOrEnd)"
| "value_token st _ = None"

fun key_token :: "frame list \<Rightarrow> token \<Rightarrow> (frame list \<times> expect) option" where
  "key_token st (ATOM (JString k)) = Some (st, ExpectColon k)"
| "key_token st _ = None"

fun parse_step :: "frame list \<Rightarrow> expect \<Rightarrow> token \<Rightarrow> (frame list \<times> expect) option" where
  "parse_step st ExpectValue t = value_token st t"
| "parse_step st ExpectValueOrEnd t = (if t = RBRACKET then close_array st else value_token st t)"
| "parse_step st ExpectKey t = key_token st t"
| "parse_step st ExpectKeyOrEnd t = (if t = RBRACE then close_object st else key_token st t)"
| "parse_step st (ExpectColon k) t =
     (case st of
        InObject ms # st' \<Rightarrow> if t = COLON then Some (InMember ms k # st', ExpectValue) else None
      | _ \<Rightarrow> None)"
| "parse_step st AfterValue t =
     (if t = COMMA then
        (case st of
           InArray vs # st' \<Rightarrow> Some (st, ExpectValue)
         | InObject ms # st' \<Rightarrow> Some (st, ExpectKey)
         | _ \<Rightarrow> None)
      else if t = RBRACKET then close_array st
      else if t = RBRACE then close_object st
      else None)"
| "parse_step st (Finished v) t = None"

fun parse_tokens :: "frame list \<Rightarrow> expect \<Rightarrow> token list \<Rightarrow> json option" where
  "parse_tokens st e [] = (case (st, e) of ([], Finished v) \<Rightarrow> Some v | _ \<Rightarrow> None)"
| "parse_tokens st e (t # ts) =
     (case parse_step st e t of
        None \<Rightarrow> None
      | Some (st', e') \<Rightarrow> parse_tokens st' e' ts)"

definition JSON_parse :: "jsstring \<Rightarrow> json option" where
  "JSON_parse text =
     (case tokenize text of
        None \<Rightarrow> None
      | Some ts \<Rightarrow> parse_tokens [] ExpectValue ts)"


section \<open>\<open>JSON.stringify\<close>\<close>

text \<open>
  The text of a number is computed here when the literal denotes an integer below \<open>2\<^sup>5\<^sup>3\<close>
  (such a value is a double, and prints as its decimal digits). For any other numeral the
  text depends on rounding to a double and is left to the parameter \<open>double_text\<close>.
\<close>

type_synonym double_text = "bool \<Rightarrow> nat \<Rightarrow> int \<Rightarrow> jsstring"

fun decimal :: "nat \<Rightarrow> jsstring" where
  "decimal n =
     (if n < 10 then [0x30 + of_nat n]
      else decimal (n div 10) @ [0x30 + of_nat (n mod 10)])"

declare decimal.simps [simp del]

definition exact_integer :: "nat \<Rightarrow> int \<Rightarrow> nat option" where
  "exact_integer m e =
     (if 0 \<le> e then Some (m * 10 ^ nat e)
      else if m mod 10 ^ nat (- e) = 0 then Some (m div 10 ^ nat (- e))
      else None)"

definition number_text :: "double_text \<Rightarrow> bool \<Rightarrow> nat \<Rightarrow> int \<Rightarrow> jsstring" where
  "number_text double_text neg m e =
     (case exact_integer m e of
        None \<Rightarrow> double_text neg m e
      | Some n \<Rightarrow>
          if n < 2 ^ 53 then (if neg \<and> n \<noteq> 0 then js ''-'' else []) @ decimal n
          else double_text neg m e)"

definition hex_digit :: "code_unit \<Rightarrow> code_unit" where
  "hex_digit d = (if d < 10 then 0x30 + d else 0x57 + d)"

definition UnicodeEscape :: "code_unit \<Rightarrow> jsstring" where
  "UnicodeEscape c =
     [0x5C, 0x75, hex_digit (and (drop_bit 12 c) 0xF), hex_digit (and (drop_bit 8 c) 0xF),
      hex_digit (and (drop_bit 4 c) 0xF), hex_digit (and c 0xF)]"

definition quote_unit :: "code_unit \<Rightarrow> jsstring" where
  "quote_unit c =
     (if c = 0x08 then [0x5C, 0x62]
      else if c = 0x09 then [0x5C, 0x74]
      else if c = 0x0A then [0x5C, 0x6E]
      else if c = 0x0C then [0x5C, 0x66]
      else if c = 0x0D then [0x5C, 0x72]
      else if c = 0x22 then [0x5C, 0x22]
      else if c = 0x5C then [0x5C, 0x5C]
      else if c < 0x20 then UnicodeEscape c
      else [c])"

definition isLeadingSurrogate :: "code_unit \<Rightarrow> bool" where
  "isLeadingSurrogate c = (0xD800 \<le> c \<and> c \<le> 0xDBFF)"

definition isTrailingSurrogate :: "code_unit \<Rightarrow> bool" where
  "isTrailingSurrogate c = (0xDC00 \<le> c \<and> c \<le> 0xDFFF)"

fun quote_units :: "jsstring \<Rightarrow> jsstring" where
  \<comment> \<open>a surrogate pair is kept, a lone surrogate is escaped\<close>
  "quote_units [] = []"
| "quote_units [c] =
     (if isLeadingSurrogate c \<or> isTrailingSurrogate c then UnicodeEscape c else quote_unit c)"
| "quote_units (c # d # cs) =
     (if isLeadingSurrogate c then
        (if isTrailingSurrogate d then c # d # quote_units cs
         else UnicodeEscape c @ quote_units (d # cs))
      else if isTrailingSurrogate c then UnicodeEscape c @ quote_units (d # cs)
      else quote_unit c @ quote_units (d # cs))"

definition QuoteJSONString :: "jsstring \<Rightarrow> jsstring" where
  "QuoteJSONString s = [0x22] @ quote_units s @ [0x22]"

fun SerializeJSONProperty ::
  "double_text \<Rightarrow> jsstring \<Rightarrow> jsstring \<Rightarrow> json \<Rightarrow> jsstring" where
  "SerializeJSONProperty double_text gap indent JNull = js ''null''"
| "SerializeJSONProperty double_text gap indent (JBool b) = (if b then js ''true'' else js ''false'')"
| "SerializeJSONProperty double_text gap indent (JNumber neg m e) = number_text double_text neg m e"
| "SerializeJSONProperty double_text gap indent (JString s) = QuoteJSONString s"
| "SerializeJSONProperty double_text gap indent (JArray vs) =
     (if vs = [] then js ''[]''
      else if gap = [] then
        js ''['' @ join (js '','') (map (SerializeJSONProperty double_text gap (indent @ gap)) vs) @ js '']''
      else
        js ''['' @ [LF] @ (indent @ gap)
          @ join (js '','' @ [LF] @ (indent @ gap))
              (map (SerializeJSONProperty double_text gap (indent @ gap)) vs)
          @ [LF] @ indent @ js '']'')"
| "SerializeJSONProperty double_text gap indent (JObject ms) =
     (if ms = [] then js ''{}''
      else if gap = [] then
        js ''{'' @ join (js '','')
            (map (\<lambda>(k, v). QuoteJSONString k @ js '':''
                     @ SerializeJSONProperty double_text gap (indent @ gap) v) ms) @ js ''}''
      else
        js ''{'' @ [LF] @ (indent @ gap)
          @ join (js '','' @ [LF] @ (indent @ gap))
              (map (\<lambda>(k, v). QuoteJSONString k @ js '': ''
                     @ SerializeJSONProperty double_text gap (indent @ gap) v) ms)
          @ [LF] @ indent @ js ''}'')"

definition JSON_stringify :: "double_text \<Rightarrow> json \<Rightarrow> nat \<Rightarrow> jsstring" where
  "JSON_stringify double_text v space =
     SerializeJSONProperty double_text (replicate (min space 10) 0x20) [] v"

section \<open>The response schema and the instruction\<close>

datatype Schema =
    StringSchema "jsstring option"               \<comment> \<open>\<open>{ type: Type.STRING, description }\<close>\<close>
  | IntegerSchema "jsstring option"              \<comment> \<open>\<open>{ type: Type.INTEGER, description }\<close>\<close>
  | ArraySchema Schema "jsstring option"         \<comment> \<open>\<open>{ type: Type.ARRAY, items, description }\<close>\<close>
  | ObjectSchema "(jsstring \<times> Schema) list" "jsstring list"
      \<comment> \<open>\<open>{ type: Type.OBJECT, properties, required }\<close>\<close>

definition veoPromptSchema_properties :: "(jsstring \<times> Schema) list" where
  \<open>veoPromptSchema_properties =
     [
      (js ''prompt'',
        StringSchema (Some (js ''A concise, powerful, and highly descriptive main prompt for the video generation. Synthesize the most critical elements of the story into one compelling sentence.''))),
      (js ''keyword'',
        ArraySchema (StringSchema None)
          (Some (js ''An array of essential keywords from the story, including characters, objects, actions, and themes.''))),
      (js ''style'',
        StringSchema (Some (js ''The visual style. Examples: 'cinematic', 'anime', 'hyperrealistic', 'watercolor', '3D animation', 'vintage film'.''))),
      (js ''tone'',
        StringSchema (Some (js ''The emotional tone of the video. This should be based on the user's preference if provided, otherwise inferred from the context. Examples: 'dramatic', 'comedic', 'mysterious', 'epic', 'serene', 'suspenseful'.''))),
      (js ''camera'',
        StringSchema (Some (js ''The type of camera to simulate. Examples: 'DSLR', '8mm film', 'drone', 'security camera', 'handheld'.''))),
      (js ''motion'',
        StringSchema (Some (js ''The primary camera movement. This should be based on the user's preference if provided, otherwise inferred from the context. Examples: 'slow pan left', 'dolly zoom', 'fast tracking shot', 'static', 'whip pan'.''))),
      (js ''angle'',
        StringSchema (Some (js ''The camera angle. Examples: 'low angle', 'high angle', 'eye-level', 'dutch angle', 'bird's eye view'.''))),
      (js ''lens'',
        StringSchema (Some (js ''The type of lens to simulate. Examples: 'wide-angle', 'telephoto', 'macro', 'fisheye'.''))),
      (js ''lighting'',
        StringSchema (Some (js ''The lighting style. Examples: 'golden hour', 'neon noir', 'soft studio lighting', 'moonlight', 'dramatic shadows'.''))),
      (js ''audio'',
        StringSchema (Some (js ''Sound design, music, or dialogue. This should integrate the timed dialogue provided by the user. Examples: 'epic orchestral score and character speaks: "Follow me!"', 'ambient nature sounds'.''))),
      (js ''setting'',
        StringSchema (Some (js ''The general environment or setting. Examples: 'futuristic cityscape', 'enchanted forest', 'post-apocalyptic wasteland'.''))),
      (js ''place'',
        StringSchema (Some (js ''The specific location within the setting. Examples: 'a neon-lit noodle bar', 'a moss-covered ancient ruin', 'an abandoned subway station'.''))),
      (js ''time'',
        StringSchema (Some (js ''The time of day or era. Examples: 'dusk', 'midnight', '1980s', 'futuristic 2099'.''))),
      (js ''characters'',
        ArraySchema (StringSchema None)
          (Some (js ''An array of descriptions for the main characters involved.''))),
      (js ''plot_point'',
        StringSchema (Some (js ''A one-sentence summary of the core action or event, incorporating the action and dialogue timelines. Example: 'The knight walks while saying "I will find it", then points at the audience.'' @ [0x27]))),
      (js ''duration_second'',
        IntegerSchema (Some (js ''The estimated duration of the video in seconds. This should be automatically calculated from the latest end time found in either the action or dialogue timelines.''))),
      (js ''aspect_ratio'',
        StringSchema (Some (js ''The aspect ratio of the video. Examples: '16:9', '9:16', '1:1', '4:3'.''))),
      (js ''negative_prompt'',
        StringSchema (Some (js ''Elements to avoid in the generation. Examples: 'blurry, low quality, watermark, text, signature'.'')))
     ]\<close>

definition veoPromptSchema_required :: "jsstring list" where
  "veoPromptSchema_required =
     [js ''prompt'', js ''keyword'', js ''style'', js ''tone'',
      js ''camera'', js ''motion'', js ''angle'', js ''lens'',
      js ''lighting'', js ''audio'', js ''setting'', js ''place'',
      js ''time'', js ''characters'', js ''plot_point'', js ''duration_second'',
      js ''aspect_ratio'', js ''negative_prompt'']"

definition veoPromptSchema :: Schema where
  "veoPromptSchema = ObjectSchema veoPromptSchema_properties veoPromptSchema_required"

definition systemInstruction_text :: jsstring where
  \<comment> \<open>the local variable \<open>systemInstruction\<close>\<close>
  \<open>systemInstruction_text =
     js ''You are an expert prompt engineer for the Gemini Veo video generation model. Your task is to analyze the provided timelines, image, and preferences, and break them down into a structured JSON format suitable for Veo. Adhere strictly to the provided JSON schema.\<newline>IMPORTANT LANGUAGE RULES:\<newline>1. All text values in the generated JSON (such as 'prompt', 'style', 'tone', 'camera', 'keyword', etc.) MUST be in English.\<newline>2. HOWEVER, for the 'audio' and 'plot_point' fields, any dialogue text taken from the 'DIALOGUE TIMELINE' MUST be preserved and written in its original language, which is Indonesian. For example, if the dialogue is "Mau pergi kemana?", the 'audio' field might be 'A character speaks: "Mau pergi kemana?"'.\<newline>OTHER RULES:\<newline>- You MUST use the 'ACTION TIMELINE' and 'DIALOGUE TIMELINE' to structure the 'plot_point' and overall 'prompt'.\<newline>- The 'duration_second' field in the JSON MUST be set to the latest end time found across both timelines.\<newline>- If a 'CAMERA MOVEMENT PREFERENCE' is provided, you MUST use it as the primary source for the 'motion' field. Otherwise, infer the best camera motion from the context.\<newline>- If a 'TONE PREFERENCE' is provided, you MUST use it as the primary source for the 'tone' field in the JSON. Otherwise, infer the best tone from the context.\<newline>- The 'audio' field should accurately incorporate the Indonesian dialogue from the 'DIALOGUE TIMELINE' along with any other implied sounds.''\<close>


section \<open>The service: \<open>generateVeoPrompt\<close>\<close>

text \<open>
  What the function reads from outside is collected in a record: the environment variable
  \<open>API_KEY\<close>, the reply of the model endpoint to a request (the value its promise rejects
  with, or \<open>response.text\<close>, which the code uses as a string), the message of the
  \<open>SyntaxError\<close> that the engine's \<open>JSON.parse\<close> raises on a text, and the text of a double.
  What the function does to the outside is returned as a list of events, in order.
\<close>

record GenerateContentConfig =
  responseMimeType :: jsstring
  responseSchema :: Schema
  systemInstruction :: jsstring

record GenerateContentParameters =
  model :: jsstring
  contents_parts :: "Part list"   \<comment> \<open>\<open>contents: { parts }\<close>\<close>
  config :: GenerateContentConfig

datatype thrown =
    ErrorObject jsstring   \<comment> \<open>a value that is \<open>instanceof Error\<close>, with its \<open>message\<close>\<close>
  | NonError               \<comment> \<open>any other thrown value\<close>

record runtime =
  API_KEY :: "jsstring option"   \<comment> \<open>\<open>process.env.API_KEY\<close>; \<open>None\<close> is \<open>undefined\<close>\<close>
  generateContent :: "GenerateContentParameters \<Rightarrow> thrown + jsstring"
  SyntaxError_message :: "jsstring \<Rightarrow> jsstring"
  double_text :: double_text

datatype event =
    Request GenerateContentParameters   \<comment> \<open>a call of \<open>ai.models.generateContent\<close>\<close>
  | Parse jsstring                      \<comment> \<open>a call of \<open>JSON.parse\<close>\<close>
  | ConsoleError jsstring thrown        \<comment> \<open>a call of \<open>console.error\<close>\<close>

datatype rejection =
    ErrorValue jsstring    \<comment> \<open>the promise rejects with an \<open>Error\<close> object carrying this message\<close>
  | StringValue jsstring   \<comment> \<open>the promise rejects with this string\<close>

datatype outcome =
    Resolved jsstring
  | Rejected rejection

definition request :: "Part list \<Rightarrow> GenerateContentParameters" where
  "request ps =
     \<lparr> model = js ''gemini-2.5-flash'',
       contents_parts = ps,
       config = \<lparr> responseMimeType = js ''application/json'',
                  responseSchema = veoPromptSchema,
                  systemInstruction = systemInstruction_text \<rparr> \<rparr>"

definition try_block :: "runtime \<Rightarrow> Part list \<Rightarrow> event list \<times> (thrown + jsstring)" where
  \<comment> \<open>the body of \<open>try\<close>: \<open>Inl\<close> is the value thrown, \<open>Inr\<close> the value returned\<close>
  "try_block rt ps =
     (case generateContent rt (request ps) of
        Inl err \<Rightarrow> ([Request (request ps)], Inl err)
      | Inr jsonString \<Rightarrow>
          if \<not> startsWith jsonString (js ''{'') \<and> \<not> startsWith jsonString (js ''['')
          then ([Request (request ps)],
                Inl (ErrorObject (js ''The API did not return a valid JSON format.'')))
          else
            (case JSON_parse jsonString of
               None \<Rightarrow>
                 ([Request (request ps), Parse jsonString],
                  Inl (ErrorObject (SyntaxError_message rt jsonString)))
             | Some parsedJson \<Rightarrow>
                 ([Request (request ps), Parse jsonString],
                  Inr (JSON_stringify (double_text rt) parsedJson 2))))"

definition catch_block :: "thrown \<Rightarrow> event list \<times> outcome" where
  "catch_block error =
     ([ConsoleError (js ''Error calling Gemini API:'') error],
      (case error of
         ErrorObject message \<Rightarrow>
           Rejected (StringValue (js ''Failed to generate prompt: '' @ message))
       | NonError \<Rightarrow>
           Rejected (StringValue (js ''An unknown error occurred while generating the prompt.''))))"

definition generateVeoPrompt :: "runtime \<Rightarrow> VeoPromptInput \<Rightarrow> event list \<times> outcome" where
  "generateVeoPrompt rt inp =
     (if \<not> (case API_KEY rt of None \<Rightarrow> False | Some key \<Rightarrow> truthy key) then
        ([], Rejected (ErrorValue
               (js ''API key is missing. Please set the API_KEY environment variable.'')))
      else if \<not> hasValidAction (actions inp) \<and> \<not> hasValidDialogue (timedDialogues inp)
                \<and> image inp = None then
        ([], Rejected (ErrorValue
               (js ''Action timeline, dialogue timeline, or an image is required.'')))
      else
        (case try_block rt (parts inp) of
           (evs, Inr result) \<Rightarrow> (evs, Resolved result)
         | (evs, Inl error) \<Rightarrow>
             (case catch_block error of (evs', out) \<Rightarrow> (evs @ evs', out))))"


section \<open>The caller\<close>

definition handleGenerate_catch :: "rejection \<Rightarrow> jsstring" where
  \<comment> \<open>the argument of \<open>setError\<close> in the \<open>catch\<close> of \<open>handleGenerate\<close>\<close>
  "handleGenerate_catch err =
     (case err of
        ErrorValue message \<Rightarrow> message
      | StringValue s \<Rightarrow> js ''An unexpected error occurred.'')"


section \<open>Vocabulary of the properties\<close>

definition credential_present :: "runtime \<Rightarrow> bool" where
  \<comment> \<open>\<open>process.env.API_KEY\<close> is truthy\<close>
  "credential_present rt = (case API_KEY rt of None \<Rightarrow> False | Some key \<Rightarrow> key \<noteq> [])"

definition required_input_present :: "VeoPromptInput \<Rightarrow> bool" where
  \<comment> \<open>a valid action, a valid dialogue line or an image is supplied\<close>
  "required_input_present inp =
     (hasValidAction (actions inp) \<or> hasValidDialogue (timedDialogues inp) \<or> image inp \<noteq> None)"

definition camera_label :: jsstring where
  "camera_label = js ''CAMERA MOVEMENT PREFERENCE: ''"

definition tone_label :: jsstring where
  "tone_label = js ''TONE PREFERENCE: ''"

definition labelled :: "jsstring \<Rightarrow> Part \<Rightarrow> bool" where
  \<comment> \<open>a text part that begins with the label\<close>
  "labelled label p = (case p of Text t \<Rightarrow> startsWith t label | InlineData m d \<Rightarrow> False)"

definition has_field :: "json \<Rightarrow> jsstring \<Rightarrow> bool" where
  "has_field v k = (case v of JObject ms \<Rightarrow> list_ex (\<lambda>m. fst m = k) ms | _ \<Rightarrow> False)"

definition lacks_required_field :: "json \<Rightarrow> bool" where
  \<comment> \<open>some name of \<open>veoPromptSchema.required\<close> is not a property of the value\<close>
  "lacks_required_field v = list_ex (\<lambda>k. \<not> has_field v k) veoPromptSchema_required"


section \<open>Worked inputs\<close>

definition example_runtime :: "jsstring option \<Rightarrow> thrown + jsstring \<Rightarrow> runtime" where
  \<comment> \<open>a runtime with the given \<open>API_KEY\<close> whose endpoint gives the same reply to every request\<close>
  "example_runtime key reply =
     \<lparr> API_KEY = key,
       generateContent = (\<lambda>req. reply),
       SyntaxError_message = (\<lambda>text. js ''Unexpected end of JSON input''),
       double_text = (\<lambda>neg m e. js ''null'') \<rparr>"

definition knight_input :: VeoPromptInput where
  \<comment> \<open>one action, one dialogue line, no image, both preferences automatic\<close>
  "knight_input =
     \<lparr> actions = [\<lparr> Action.startTime = js ''0'', Action.endTime = js ''2'',
                     description = js ''Knight walks'' \<rparr>],
       timedDialogues = [\<lparr> startTime = js ''0'', endTime = js ''2'',
                            dialogueText = js ''Mau pergi kemana?'' \<rparr>],
       cameraMovement = js ''Automatic'',
       tone = js ''Automatic'',
       image = None \<rparr>"

definition blank_input :: VeoPromptInput where
  \<comment> \<open>the form as the interface seeds it, with blanks typed into the two text fields\<close>
  "blank_input =
     \<lparr> actions = [\<lparr> Action.startTime = [], Action.endTime = [], description = js ''  '' \<rparr>],
       timedDialogues = [\<lparr> startTime = [], endTime = [], dialogueText = [0x09, 0xA0] \<rparr>],
       cameraMovement = js ''Automatic'',
       tone = js ''Automatic'',
       image = None \<rparr>"

definition castle_actions :: "Action list" where
  \<comment> \<open>two valid actions out of time order around a blank one; the times of the last are
      blanks and a text that is no number\<close>
  "castle_actions =
     [\<lparr> Action.startTime = js ''5'', Action.endTime = [], description = js ''Knight points'' \<rparr>,
      \<lparr> Action.startTime = js ''3'', Action.endTime = js ''4'', description = js '' '' \<rparr>,
      \<lparr> Action.startTime = js ''  '', Action.endTime = js ''2x'',
        description = js '' Knight walks '' \<rparr>]"

definition castle_dialogues :: "TimedDialogue list" where
  "castle_dialogues =
     [\<lparr> startTime = [], endTime = js '' '', dialogueText = js ''Mau pergi kemana? '' \<rparr>]"

definition castle_input :: VeoPromptInput where
  \<comment> \<open>an image, both timelines and both preferences\<close>
  "castle_input =
     \<lparr> actions = castle_actions,
       timedDialogues = castle_dialogues,
       cameraMovement = js ''Tilt up'',
       tone = js ''dramatic'',
       image = Some \<lparr> data = js ''aGVsbG8='', mimeType = js ''image/png'' \<rparr> \<rparr>"

definition reply_without_aspect_ratio :: jsstring where
  \<comment> \<open>a JSON object with seventeen of the eighteen required fields\<close>
  \<open>reply_without_aspect_ratio =
     js ''{"prompt":"A knight walks","keyword":["knight"],"style":"cinematic","tone":"epic","camera":"drone","motion":"static","angle":"low angle","lens":"macro","lighting":"moonlight","audio":"Mau pergi kemana?","setting":"forest","place":"ruin","time":"dusk","characters":[],"plot_point":"The knight walks","duration_second":2,"negative_prompt":"blurry"}''\<close>

definition parsed_without_aspect_ratio :: json where
  "parsed_without_aspect_ratio =
     JObject
       [(js ''prompt'', JString (js ''A knight walks'')),
        (js ''keyword'', JArray [JString (js ''knight'')]),
        (js ''style'', JString (js ''cinematic'')),
        (js ''tone'', JString (js ''epic'')),
        (js ''camera'', JString (js ''drone'')),
        (js ''motion'', JString (js ''static'')),
        (js ''angle'', JString (js ''low angle'')),
        (js ''lens'', JString (js ''macro'')),
        (js ''lighting'', JString (js ''moonlight'')),
        (js ''audio'', JString (js ''Mau pergi kemana?'')),
        (js ''setting'', JString (js ''forest'')),
        (js ''place'', JString (js ''ruin'')),
        (js ''time'', JString (js ''dusk'')),
        (js ''characters'', JArray []),
        (js ''plot_point'', JString (js ''The knight walks'')),
        (js ''duration_second'', JNumber False 2 0),
        (js ''negative_prompt'', JString (js ''blurry''))]"

definition pretty_without_aspect_ratio :: jsstring where
  \<open>pretty_without_aspect_ratio =
     js ''{\<newline>  "prompt": "A knight walks",\<newline>  "keyword": [\<newline>    "knight"\<newline>  ],\<newline>  "style": "cinematic",\<newline>  "tone": "epic",\<newline>  "camera": "drone",\<newline>  "motion": "static",\<newline>  "angle": "low angle",\<newline>  "lens": "macro",\<newline>  "lighting": "moonlight",\<newline>  "audio": "Mau pergi kemana?",\<newline>  "setting": "forest",\<newline>  "place": "ruin",\<newline>  "time": "dusk",\<newline>  "characters": [],\<newline>  "plot_point": "The knight walks",\<newline>  "duration_second": 2,\<newline>  "negative_prompt": "blurry"\<newline>}''\<close>


section \<open>The control flow of \<open>generateVeoPrompt\<close>\<close>

lemma hasValidAction_iff:
  "hasValidAction as \<longleftrightarrow> (\<exists>a\<in>set as. trim (description a) \<noteq> [])"
  by (simp add: hasValidAction_def truthy_def list_ex_iff)

lemma hasValidDialogue_iff:
  "hasValidDialogue ds \<longleftrightarrow> (\<exists>d\<in>set ds. trim (dialogueText d) \<noteq> [])"
  by (simp add: hasValidDialogue_def truthy_def list_ex_iff)

lemma fst_try_block:
  "\<forall>req. Request req \<in> set (fst (try_block rt ps)) \<longrightarrow> req = request ps"
  by (auto simp: try_block_def split: sum.splits option.splits)

lemma generateVeoPrompt_calls:
  assumes "credential_present rt" "required_input_present inp"
  shows "generateVeoPrompt rt inp =
           (case try_block rt (parts inp) of
              (evs, Inr result) \<Rightarrow> (evs, Resolved result)
            | (evs, Inl error) \<Rightarrow> (evs @ fst (catch_block error), snd (catch_block error)))"
  using assms
  by (auto simp: generateVeoPrompt_def credential_present_def required_input_present_def
        truthy_def
      split: option.splits prod.splits sum.splits)

lemma no_events_unless_guards_pass:
  "\<not> (credential_present rt \<and> required_input_present inp) \<Longrightarrow>
     fst (generateVeoPrompt rt inp) = []"
  by (auto simp: generateVeoPrompt_def credential_present_def required_input_present_def
        truthy_def
      split: option.splits)

lemma request_event:
  assumes "Request req \<in> set (fst (generateVeoPrompt rt inp))"
  shows "credential_present rt \<and> required_input_present inp \<and> req = request (parts inp)"
proof -
  have g: "credential_present rt \<and> required_input_present inp"
    using assms no_events_unless_guards_pass [of rt inp] by fastforce
  then have "Request req \<in> set (fst (try_block rt (parts inp)))"
    using assms generateVeoPrompt_calls [of rt inp]
    by (auto simp: catch_block_def split: prod.splits sum.splits)
  with g show ?thesis using fst_try_block [of rt "parts inp"] by blast
qed

lemma request_made:
  assumes "credential_present rt" "required_input_present inp"
  shows "Request (request (parts inp)) \<in> set (fst (generateVeoPrompt rt inp))"
  using assms
  by (auto simp: generateVeoPrompt_calls try_block_def catch_block_def
      split: sum.splits option.splits)

lemma after_failed_call:
  assumes "credential_present rt" "required_input_present inp"
    and "generateContent rt (request (parts inp)) = Inl e"
  shows "generateVeoPrompt rt inp =
     ([Request (request (parts inp)), ConsoleError (js ''Error calling Gemini API:'') e],
      Rejected (StringValue
        (case e of
           ErrorObject message \<Rightarrow> js ''Failed to generate prompt: '' @ message
         | NonError \<Rightarrow> js ''An unknown error occurred while generating the prompt.'')))"
  using assms
  by (simp add: generateVeoPrompt_calls try_block_def catch_block_def split: thrown.splits)

lemma after_response:
  assumes "credential_present rt" "required_input_present inp"
    and "generateContent rt (request (parts inp)) = Inr t"
  shows "generateVeoPrompt rt inp =
     (if \<not> startsWith t (js ''{'') \<and> \<not> startsWith t (js ''['') then
        ([Request (request (parts inp)),
          ConsoleError (js ''Error calling Gemini API:'')
            (ErrorObject (js ''The API did not return a valid JSON format.''))],
         Rejected (StringValue (js ''Failed to generate prompt: ''
                                  @ js ''The API did not return a valid JSON format.'')))
      else (case JSON_parse t of
              None \<Rightarrow>
                ([Request (request (parts inp)), Parse t,
                  ConsoleError (js ''Error calling Gemini API:'')
                    (ErrorObject (SyntaxError_message rt t))],
                 Rejected (StringValue (js ''Failed to generate prompt: ''
                                          @ SyntaxError_message rt t)))
            | Some v \<Rightarrow>
                ([Request (request (parts inp)), Parse t],
                 Resolved (JSON_stringify (double_text rt) v 2))))"
  using assms
  by (simp add: generateVeoPrompt_calls try_block_def catch_block_def split: option.splits)


section \<open>Facts about the worked inputs\<close>

lemma example_runtime_simps:
  "API_KEY (example_runtime key reply) = key"
  "generateContent (example_runtime key reply) req = reply"
  "SyntaxError_message (example_runtime key reply) t = js ''Unexpected end of JSON input''"
  "credential_present (example_runtime (Some (js ''secret'')) reply)"
  "\<not> credential_present (example_runtime None reply)"
  by (simp_all add: example_runtime_def credential_present_def js_def)

lemma knight_input_valid: "required_input_present knight_input"
  by (simp add: required_input_present_def knight_input_def hasValidAction_def truthy_def
        trim_def isWhiteSpace_def js_def)

lemma castle_input_valid: "required_input_present castle_input"
  by (simp add: required_input_present_def castle_input_def)

lemma blank_input_invalid:
  "\<not> hasValidAction (actions blank_input)" "\<not> hasValidDialogue (timedDialogues blank_input)"
  "image blank_input = None"
  by (simp_all add: blank_input_def hasValidAction_def hasValidDialogue_def truthy_def
        trim_def isWhiteSpace_def js_def)

lemma JSON_stringify_2:
  "JSON_stringify dt v 2 = SerializeJSONProperty dt [0x20, 0x20] [] v"
proof -
  have "replicate (min 2 10) (0x20 :: code_unit) = [0x20, 0x20]"
    by (simp add: numeral_2_eq_2)
  then show ?thesis by (simp add: JSON_stringify_def)
qed

lemma parse_reply_without_aspect_ratio:
  "JSON_parse reply_without_aspect_ratio = Some parsed_without_aspect_ratio"
  by code_simp

lemma stringify_parsed_without_aspect_ratio:
  "JSON_stringify dt parsed_without_aspect_ratio 2 = pretty_without_aspect_ratio"
  by (simp add: JSON_stringify_2 parsed_without_aspect_ratio_def pretty_without_aspect_ratio_def
      js_def QuoteJSONString_def quote_unit_def isLeadingSurrogate_def isTrailingSurrogate_def
      number_text_def exact_integer_def decimal.simps LF_def)

lemma parsed_without_aspect_ratio_lacks:
  "\<not> has_field parsed_without_aspect_ratio (js ''aspect_ratio'')"
  "lacks_required_field parsed_without_aspect_ratio"
  by (simp_all add: lacks_required_field_def has_field_def parsed_without_aspect_ratio_def
        veoPromptSchema_required_def js_def)

lemma reply_without_aspect_ratio_delimiter:
  "startsWith reply_without_aspect_ratio (js ''{'')"
  by (simp add: reply_without_aspect_ratio_def startsWith_def js_def)


lemma knight_parts:
  "parts knight_input =
     [Text (js ''ACTION TIMELINE:'' @ [LF] @ js ''- 0'' @ [EN_DASH] @ js ''2 sec: Knight walks''),
      Text (js ''DIALOGUE TIMELINE (IN INDONESIAN):'' @ [LF] @ js ''- 0'' @ [EN_DASH]
              @ js ''2 sec: '' @ [DQUOTE] @ js ''Mau pergi kemana?'' @ [DQUOTE])]"
proof -
  have t: "trim (js ''Knight walks'') = js ''Knight walks''"
    "trim (js ''Mau pergi kemana?'') = js ''Mau pergi kemana?''"
    by (simp_all add: trim_def isWhiteSpace_def js_def)
  show ?thesis
    by (simp add: parts_def knight_input_def push_def hasValidAction_def hasValidDialogue_def
          timeline_def dialogueTimeline_def action_line_def dialogue_line_def or_else_def
          truthy_def t)
       (simp add: js_def)
qed

lemma JSON_parse_property_order:
  \<open>JSON_parse (js ''{"b":1,"10":2,"b":3,"9":4}'')
     = Some (JObject [(js ''9'', JNumber False 4 0), (js ''10'', JNumber False 2 0),
                      (js ''b'', JNumber False 3 0)])\<close>
proof -
  have \<open>tokenize (js ''{"b":1,"10":2,"b":3,"9":4}'') =
          Some [LBRACE, ATOM (JString (js ''b'')), COLON, ATOM (JNumber False 1 0), COMMA,
                ATOM (JString (js ''10'')), COLON, ATOM (JNumber False 2 0), COMMA,
                ATOM (JString (js ''b'')), COLON, ATOM (JNumber False 3 0), COMMA,
                ATOM (JString (js ''9'')), COLON, ATOM (JNumber False 4 0), RBRACE]\<close>
    by code_simp
  then show ?thesis
    by (simp add: JSON_parse_def define_property_def array_index_def precedes_def isDigit_def
          digits_value_def js_def)
qed

lemma JSON_parse_values:
  \<open>JSON_parse (js ''[-1.50e+2, "x", null, false, {}]'')
     = Some (JArray [JNumber True 150 0, JString (js ''x''), JNull, JBool False, JObject []])\<close>
  by code_simp

lemma JSON_parse_trailing_comma:
  \<open>JSON_parse (js ''[1,]'') = None\<close>
  \<open>JSON_parse (js ''{"a":1,}'') = None\<close>
  by (code_simp, code_simp)

lemma JSON_parse_malformed:
  \<open>JSON_parse (js ''[01]'') = None\<close>
  \<open>JSON_parse (js ''[1 2]'') = None\<close>
  \<open>JSON_parse (js ''{a:1}'') = None\<close>
  \<open>JSON_parse (js ''[[]'') = None\<close>
  by (code_simp, code_simp, code_simp, code_simp)


section \<open>The guards\<close>

text \<open>
  C4. When \<open>API_KEY\<close> is absent (undefined, or the empty string), \<open>generateVeoPrompt\<close>
  does nothing to the outside (no request, no parse, no log) and rejects with an \<open>Error\<close>
  whose message is the configuration message itself, without the prefix of the \<open>catch\<close>
  block; the caller shows that message as it is.
  This holds for every input and every endpoint.
\<close>

theorem missing_credential_rejects_before_request:
  assumes "API_KEY rt = None \<or> API_KEY rt = Some []"
  shows "generateVeoPrompt rt inp =
           ([], Rejected (ErrorValue
                  (js ''API key is missing. Please set the API_KEY environment variable.'')))
         \<and> (\<forall>r. snd (generateVeoPrompt rt inp) = Rejected r \<longrightarrow>
               handleGenerate_catch r
                 = js ''API key is missing. Please set the API_KEY environment variable.'')"
  using assms by (auto simp: generateVeoPrompt_def handleGenerate_catch_def truthy_def)

theorem missing_credential_rejects_before_request_witness:
  "API_KEY (example_runtime None (Inr (js ''{}''))) = None
   \<and> generateVeoPrompt (example_runtime None (Inr (js ''{}''))) knight_input =
           ([], Rejected (ErrorValue
                  (js ''API key is missing. Please set the API_KEY environment variable.'')))"
proof -
  have h: "API_KEY (example_runtime None (Inr (js ''{}''))) = None"
    by (simp add: example_runtime_def)
  show ?thesis
    using h missing_credential_rejects_before_request [OF disjI1 [OF h], of knight_input]
    by simp
qed

text \<open>
  C5, as the claim states it, fails: the credential guard comes first, so without a
  credential an input with no valid action, no valid dialogue line and no image is rejected
  with the configuration message, not with the input message.
\<close>

theorem blank_input_without_credential_counterexample:
  "\<not> hasValidAction (actions blank_input)
   \<and> \<not> hasValidDialogue (timedDialogues blank_input)
   \<and> image blank_input = None
   \<and> snd (generateVeoPrompt (example_runtime None (Inr (js ''{}''))) blank_input)
       = Rejected (ErrorValue
           (js ''API key is missing. Please set the API_KEY environment variable.''))
   \<and> snd (generateVeoPrompt (example_runtime None (Inr (js ''{}''))) blank_input)
       \<noteq> Rejected (ErrorValue
           (js ''Action timeline, dialogue timeline, or an image is required.''))"
  by (simp add: blank_input_invalid generateVeoPrompt_def example_runtime_simps js_def)

text \<open>
  C5, amended. When the credential is present and every action description and every
  dialogue text is empty after trimming and no image is supplied, \<open>generateVeoPrompt\<close> does
  nothing to the outside and rejects with an \<open>Error\<close> whose message is the input message
  itself; the caller shows that message as it is.
\<close>

theorem missing_input_rejects_before_request:
  assumes "credential_present rt"
    and "\<forall>a\<in>set (actions inp). trim (description a) = []"
    and "\<forall>d\<in>set (timedDialogues inp). trim (dialogueText d) = []"
    and "image inp = None"
  shows "generateVeoPrompt rt inp =
           ([], Rejected (ErrorValue
                  (js ''Action timeline, dialogue timeline, or an image is required.'')))
         \<and> (\<forall>r. snd (generateVeoPrompt rt inp) = Rejected r \<longrightarrow>
               handleGenerate_catch r
                 = js ''Action timeline, dialogue timeline, or an image is required.'')"
  using assms
  by (auto simp: generateVeoPrompt_def credential_present_def hasValidAction_iff
        hasValidDialogue_iff truthy_def handleGenerate_catch_def
      split: option.splits)

theorem missing_input_rejects_before_request_witness:
  "credential_present (example_runtime (Some (js ''secret'')) (Inr (js ''{}'')))
   \<and> \<not> hasValidAction (actions blank_input)
   \<and> \<not> hasValidDialogue (timedDialogues blank_input)
   \<and> image blank_input = None
   \<and> generateVeoPrompt (example_runtime (Some (js ''secret'')) (Inr (js ''{}''))) blank_input =
           ([], Rejected (ErrorValue
                  (js ''Action timeline, dialogue timeline, or an image is required.'')))"
proof -
  have c: "credential_present (example_runtime (Some (js ''secret'')) (Inr (js ''{}'')))"
    by (rule example_runtime_simps)
  have a: "\<forall>a\<in>set (actions blank_input). trim (description a) = []"
    using blank_input_invalid(1) by (simp add: hasValidAction_iff)
  have d: "\<forall>d\<in>set (timedDialogues blank_input). trim (dialogueText d) = []"
    using blank_input_invalid(2) by (simp add: hasValidDialogue_iff)
  have i: "image blank_input = None"
    by (rule blank_input_invalid)
  from missing_input_rejects_before_request [OF c a d i] c blank_input_invalid
  show ?thesis by blast
qed


section \<open>The response\<close>

text \<open>
  C6. When a request was made and its response text starts neither with \<open>{\<close> nor with \<open>[\<close>,
  the promise rejects with the string made of the prefix \<open>Failed to generate prompt: \<close> and
  the message \<open>The API did not return a valid JSON format.\<close>, and \<open>JSON.parse\<close> is never
  called.
\<close>

theorem non_json_response_rejected_unparsed:
  assumes "Request req \<in> set (fst (generateVeoPrompt rt inp))"
    and "generateContent rt req = Inr t"
    and "\<not> startsWith t (js ''{'')" and "\<not> startsWith t (js ''['')"
  shows "snd (generateVeoPrompt rt inp) =
           Rejected (StringValue (js ''Failed to generate prompt: ''
                                    @ js ''The API did not return a valid JSON format.''))
         \<and> (\<forall>text. Parse text \<notin> set (fst (generateVeoPrompt rt inp)))"
  using request_event [OF assms(1)] assms(2-) by (simp add: after_response)

theorem non_json_response_rejected_unparsed_witness:
  "Request (request (parts knight_input))
     \<in> set (fst (generateVeoPrompt (example_runtime (Some (js ''secret'')) (Inr (js ''not json'')))
                  knight_input))
   \<and> \<not> startsWith (js ''not json'') (js ''{'') \<and> \<not> startsWith (js ''not json'') (js ''['')
   \<and> snd (generateVeoPrompt (example_runtime (Some (js ''secret'')) (Inr (js ''not json'')))
            knight_input) =
           Rejected (StringValue (js ''Failed to generate prompt: ''
                                    @ js ''The API did not return a valid JSON format.''))"
proof -
  let ?rt = "example_runtime (Some (js ''secret'')) (Inr (js ''not json''))"
  have r: "Request (request (parts knight_input))
             \<in> set (fst (generateVeoPrompt ?rt knight_input))"
    by (rule request_made [OF example_runtime_simps(4) knight_input_valid])
  have g: "generateContent ?rt (request (parts knight_input)) = Inr (js ''not json'')"
    by (rule example_runtime_simps)
  have n1: "\<not> startsWith (js ''not json'') (js ''{'')"
    by (simp add: startsWith_def js_def)
  have n2: "\<not> startsWith (js ''not json'') (js ''['')"
    by (simp add: startsWith_def js_def)
  from non_json_response_rejected_unparsed [OF r g n1 n2] r n1 n2
  show ?thesis by blast
qed

text \<open>
  C8. When a request was made and its response text starts with \<open>{\<close> or \<open>[\<close>: if the text
  parses, the promise resolves with \<open>JSON.stringify(parsed, null, 2)\<close> of the parsed value;
  if it does not parse, the promise rejects (with the prefixed message of the
  \<open>SyntaxError\<close>).
\<close>

theorem delimited_response_parsed_and_reserialized:
  assumes "Request req \<in> set (fst (generateVeoPrompt rt inp))"
    and "generateContent rt req = Inr t"
    and "startsWith t (js ''{'') \<or> startsWith t (js ''['')"
  shows "(\<forall>parsed. JSON_parse t = Some parsed \<longrightarrow>
            snd (generateVeoPrompt rt inp) = Resolved (JSON_stringify (double_text rt) parsed 2))
         \<and> (JSON_parse t = None \<longrightarrow>
            snd (generateVeoPrompt rt inp) =
              Rejected (StringValue (js ''Failed to generate prompt: ''
                                       @ SyntaxError_message rt t)))"
  using request_event [OF assms(1)] assms(2-) by (auto simp add: after_response)

theorem delimited_response_parsed_and_reserialized_witness:
  \<open>Request (request (parts knight_input))
     \<in> set (fst (generateVeoPrompt
                  (example_runtime (Some (js ''secret'')) (Inr (js ''{"a":[1,true]}'')))
                  knight_input))
   \<and> startsWith (js ''{"a":[1,true]}'') (js ''{'')
   \<and> JSON_parse (js ''{"a":[1,true]}'')
       = Some (JObject [(js ''a'', JArray [JNumber False 1 0, JBool True])])
   \<and> snd (generateVeoPrompt
            (example_runtime (Some (js ''secret'')) (Inr (js ''{"a":[1,true]}'')))
            knight_input)
       = Resolved (js ''{\<newline>  "a": [\<newline>    1,\<newline>    true\<newline>  ]\<newline>}'')
   \<and> startsWith (js ''{"a":'') (js ''{'')
   \<and> JSON_parse (js ''{"a":'') = None
   \<and> snd (generateVeoPrompt
            (example_runtime (Some (js ''secret'')) (Inr (js ''{"a":'')))
            knight_input)
       = Rejected (StringValue (js ''Failed to generate prompt: Unexpected end of JSON input''))\<close>
proof -
  let ?good = \<open>js ''{"a":[1,true]}''\<close>
  let ?bad = \<open>js ''{"a":''\<close>
  let ?v = "JObject [(js ''a'', JArray [JNumber False 1 0, JBool True])]"
  have r: "Request (request (parts knight_input))
             \<in> set (fst (generateVeoPrompt (example_runtime (Some (js ''secret'')) reply)
                          knight_input))" for reply
    by (rule request_made [OF example_runtime_simps(4) knight_input_valid])
  have g: "generateContent (example_runtime (Some (js ''secret'')) (Inr t))
             (request (parts knight_input)) = Inr t" for t
    by (rule example_runtime_simps)
  have d1: "startsWith ?good (js ''{'')" and d2: "startsWith ?bad (js ''{'')"
    by (simp_all add: startsWith_def js_def)
  have p1: "JSON_parse ?good = Some ?v"
    by code_simp
  have p2: "JSON_parse ?bad = None"
    by code_simp
  have s: \<open>JSON_stringify dt ?v 2 = js ''{\<newline>  "a": [\<newline>    1,\<newline>    true\<newline>  ]\<newline>}''\<close> for dt
    by (simp add: JSON_stringify_2 js_def QuoteJSONString_def quote_unit_def
          isLeadingSurrogate_def isTrailingSurrogate_def number_text_def exact_integer_def
          decimal.simps LF_def)
  have m: \<open>js ''Failed to generate prompt: ''
             @ SyntaxError_message (example_runtime (Some (js ''secret'')) (Inr ?bad)) ?bad
           = js ''Failed to generate prompt: Unexpected end of JSON input''\<close>
    by (simp add: example_runtime_simps js_def)
  from delimited_response_parsed_and_reserialized [OF r g, of ?good] d1 p1 s
  have ok: \<open>snd (generateVeoPrompt (example_runtime (Some (js ''secret'')) (Inr ?good))
                  knight_input)
            = Resolved (js ''{\<newline>  "a": [\<newline>    1,\<newline>    true\<newline>  ]\<newline>}'')\<close>
    by simp
  from delimited_response_parsed_and_reserialized [OF r g, of ?bad] d2 p2 m
  have ko: \<open>snd (generateVeoPrompt (example_runtime (Some (js ''secret'')) (Inr ?bad))
                  knight_input)
            = Rejected (StringValue
                (js ''Failed to generate prompt: Unexpected end of JSON input''))\<close>
    by simp
  from r d1 p1 ok d2 p2 ko show ?thesis by blast
qed

text \<open>
  C1, as the claim states it, fails: a response that is a JSON object with every required
  field but \<open>aspect_ratio\<close> is accepted, and the promise resolves with its pretty-printed text.
\<close>

theorem response_without_aspect_ratio_accepted_counterexample:
  "Request (request (parts knight_input))
     \<in> set (fst (generateVeoPrompt
                  (example_runtime (Some (js ''secret'')) (Inr reply_without_aspect_ratio))
                  knight_input))
   \<and> generateContent (example_runtime (Some (js ''secret'')) (Inr reply_without_aspect_ratio))
        (request (parts knight_input)) = Inr reply_without_aspect_ratio
   \<and> startsWith reply_without_aspect_ratio (js ''{'')
   \<and> JSON_parse reply_without_aspect_ratio = Some parsed_without_aspect_ratio
   \<and> \<not> has_field parsed_without_aspect_ratio (js ''aspect_ratio'')
   \<and> lacks_required_field parsed_without_aspect_ratio
   \<and> snd (generateVeoPrompt
            (example_runtime (Some (js ''secret'')) (Inr reply_without_aspect_ratio))
            knight_input)
       = Resolved pretty_without_aspect_ratio"
proof -
  let ?rt = "example_runtime (Some (js ''secret'')) (Inr reply_without_aspect_ratio)"
  have g: "generateContent ?rt (request (parts knight_input)) = Inr reply_without_aspect_ratio"
    by (rule example_runtime_simps)
  have "snd (generateVeoPrompt ?rt knight_input) = Resolved pretty_without_aspect_ratio"
    by (simp add: after_response [OF example_runtime_simps(4) knight_input_valid g]
          reply_without_aspect_ratio_delimiter parse_reply_without_aspect_ratio
          stringify_parsed_without_aspect_ratio)
  moreover have "Request (request (parts knight_input))
                    \<in> set (fst (generateVeoPrompt ?rt knight_input))"
    by (rule request_made [OF example_runtime_simps(4) knight_input_valid])
  ultimately show ?thesis
    using g reply_without_aspect_ratio_delimiter parse_reply_without_aspect_ratio
      parsed_without_aspect_ratio_lacks
    by blast
qed

text \<open>
  C1, amended. The response is not checked against the schema: the list of required fields
  is only sent to the endpoint, as \<open>responseSchema\<close> of the request. When a request was made
  and its response text starts with \<open>{\<close> or \<open>[\<close> and parses, the promise resolves with the
  pretty-printed text even if the parsed value lacks some of the eighteen required fields.
\<close>

theorem response_not_checked_against_schema:
  assumes "Request req \<in> set (fst (generateVeoPrompt rt inp))"
    and "generateContent rt req = Inr t"
    and "startsWith t (js ''{'') \<or> startsWith t (js ''['')"
    and "JSON_parse t = Some parsed"
    and "lacks_required_field parsed"
  shows "snd (generateVeoPrompt rt inp) = Resolved (JSON_stringify (double_text rt) parsed 2)
         \<and> responseSchema (config req)
             = ObjectSchema veoPromptSchema_properties veoPromptSchema_required"
  using request_event [OF assms(1)] assms(2-)
  by (auto simp add: after_response request_def veoPromptSchema_def)

theorem response_not_checked_against_schema_witness:
  "Request (request (parts castle_input))
     \<in> set (fst (generateVeoPrompt (example_runtime (Some (js ''secret'')) (Inr (js ''[]'')))
                  castle_input))
   \<and> startsWith (js ''[]'') (js ''['')
   \<and> JSON_parse (js ''[]'') = Some (JArray [])
   \<and> lacks_required_field (JArray [])
   \<and> snd (generateVeoPrompt (example_runtime (Some (js ''secret'')) (Inr (js ''[]'')))
            castle_input)
       = Resolved (js ''[]'')"
proof -
  let ?rt = "example_runtime (Some (js ''secret'')) (Inr (js ''[]''))"
  have r: "Request (request (parts castle_input)) \<in> set (fst (generateVeoPrompt ?rt castle_input))"
    by (rule request_made [OF example_runtime_simps(4) castle_input_valid])
  have g: "generateContent ?rt (request (parts castle_input)) = Inr (js ''[]'')"
    by (rule example_runtime_simps)
  have d: "startsWith (js ''[]'') (js ''['')"
    by (simp add: startsWith_def js_def)
  have p: "JSON_parse (js ''[]'') = Some (JArray [])"
    by code_simp
  have l: "lacks_required_field (JArray [])"
    by (simp add: lacks_required_field_def has_field_def veoPromptSchema_required_def)
  have s: "JSON_stringify dt (JArray []) 2 = js ''[]''" for dt
    by (simp add: JSON_stringify_2)
  from response_not_checked_against_schema [OF r g disjI2 [OF d] p l] s r d p l
  show ?thesis by simp
qed


section \<open>The value of the rejection\<close>

text \<open>
  C9. The two guards reject with an \<open>Error\<close> object, whose message the caller shows. Once
  the guards are passed, every rejection is a plain string (a failed call of the endpoint
  is one such rejection), and the caller, which tests \<open>err instanceof Error\<close>, shows
  \<open>An unexpected error occurred.\<close> instead of it.
\<close>

theorem rejection_is_error_before_request_and_string_after:
  "(\<not> credential_present rt \<or> \<not> required_input_present inp \<longrightarrow>
      (\<exists>message. snd (generateVeoPrompt rt inp) = Rejected (ErrorValue message)
         \<and> handleGenerate_catch (ErrorValue message) = message))
   \<and> (credential_present rt \<and> required_input_present inp \<longrightarrow>
      (\<forall>r. snd (generateVeoPrompt rt inp) = Rejected r \<longrightarrow>
         (\<exists>s. r = StringValue s)
         \<and> handleGenerate_catch r = js ''An unexpected error occurred.''))
   \<and> (credential_present rt \<and> required_input_present inp
        \<and> (\<exists>e. generateContent rt (request (parts inp)) = Inl e) \<longrightarrow>
      (\<exists>s. snd (generateVeoPrompt rt inp) = Rejected (StringValue s)))"
  by (auto simp: generateVeoPrompt_def credential_present_def required_input_present_def
        truthy_def handleGenerate_catch_def try_block_def catch_block_def
      split: option.splits prod.splits sum.splits thrown.splits if_splits)

theorem rejection_is_error_before_request_and_string_after_witness:
  "\<not> credential_present (example_runtime None (Inl (ErrorObject (js ''fetch failed''))))
   \<and> (\<exists>message. snd (generateVeoPrompt
                        (example_runtime None (Inl (ErrorObject (js ''fetch failed''))))
                        knight_input) = Rejected (ErrorValue message))
   \<and> credential_present (example_runtime (Some (js ''secret''))
         (Inl (ErrorObject (js ''fetch failed''))))
   \<and> required_input_present knight_input
   \<and> (\<exists>s. snd (generateVeoPrompt
                  (example_runtime (Some (js ''secret'')) (Inl (ErrorObject (js ''fetch failed''))))
                  knight_input) = Rejected (StringValue s)
          \<and> handleGenerate_catch (StringValue s) = js ''An unexpected error occurred.'')"
proof -
  let ?e = "Inl (ErrorObject (js ''fetch failed'')) :: thrown + jsstring"
  have n: "\<not> credential_present (example_runtime None ?e)"
    by (rule example_runtime_simps)
  have c: "credential_present (example_runtime (Some (js ''secret'')) ?e)"
    by (rule example_runtime_simps)
  have g: "\<exists>e. generateContent (example_runtime (Some (js ''secret'')) ?e)
                  (request (parts knight_input)) = Inl e"
    by (simp add: example_runtime_simps)
  from rejection_is_error_before_request_and_string_after
         [of "example_runtime None ?e" knight_input] n
  have 1: "\<exists>message. snd (generateVeoPrompt (example_runtime None ?e) knight_input)
                        = Rejected (ErrorValue message)"
    by blast
  from rejection_is_error_before_request_and_string_after
         [of "example_runtime (Some (js ''secret'')) ?e" knight_input] c knight_input_valid g
  have 2: "\<exists>s. snd (generateVeoPrompt (example_runtime (Some (js ''secret'')) ?e) knight_input)
                  = Rejected (StringValue s)
               \<and> handleGenerate_catch (StringValue s) = js ''An unexpected error occurred.''"
    by metis
  from n 1 c knight_input_valid 2 show ?thesis by blast
qed


section \<open>The assembled parts\<close>

text \<open>
  C2. The parts are, in this order and with nothing else: the image and its caption when an
  image is present; the ACTION TIMELINE block when some action description is not empty
  after trimming; the DIALOGUE TIMELINE (IN INDONESIAN) block when some dialogue text is not
  empty after trimming; the CAMERA MOVEMENT PREFERENCE block when \<open>cameraMovement\<close> is neither
  empty nor \<open>Automatic\<close>; the TONE PREFERENCE block when \<open>tone\<close> is neither empty nor
  \<open>Automatic\<close>. Every request that is made carries exactly these parts, and a request is
  made whenever the credential and the required input are present.
\<close>

theorem parts_in_fixed_order:
  "parts inp =
     (case image inp of
        None \<Rightarrow> []
      | Some img \<Rightarrow>
          [InlineData (mimeType img) (data img),
           Text (js ''The user has provided the above image as a visual reference.'')])
     @ (if \<exists>a\<in>set (actions inp). trim (description a) \<noteq> []
        then [Text (js ''ACTION TIMELINE:'' @ [LF] @ timeline (actions inp))] else [])
     @ (if \<exists>d\<in>set (timedDialogues inp). trim (dialogueText d) \<noteq> []
        then [Text (js ''DIALOGUE TIMELINE (IN INDONESIAN):'' @ [LF]
                      @ dialogueTimeline (timedDialogues inp))] else [])
     @ (if cameraMovement inp \<noteq> [] \<and> cameraMovement inp \<noteq> js ''Automatic''
        then [Text (js ''CAMERA MOVEMENT PREFERENCE: '' @ cameraMovement inp)] else [])
     @ (if tone inp \<noteq> [] \<and> tone inp \<noteq> js ''Automatic''
        then [Text (js ''TONE PREFERENCE: '' @ tone inp)] else [])
   \<and> (\<forall>req. Request req \<in> set (fst (generateVeoPrompt rt inp)) \<longrightarrow>
         contents_parts req = parts inp)
   \<and> (credential_present rt \<and> required_input_present inp \<longrightarrow>
         Request (request (parts inp)) \<in> set (fst (generateVeoPrompt rt inp)))"
proof (intro conjI)
  show "parts inp =
     (case image inp of
        None \<Rightarrow> []
      | Some img \<Rightarrow>
          [InlineData (mimeType img) (data img),
           Text (js ''The user has provided the above image as a visual reference.'')])
     @ (if \<exists>a\<in>set (actions inp). trim (description a) \<noteq> []
        then [Text (js ''ACTION TIMELINE:'' @ [LF] @ timeline (actions inp))] else [])
     @ (if \<exists>d\<in>set (timedDialogues inp). trim (dialogueText d) \<noteq> []
        then [Text (js ''DIALOGUE TIMELINE (IN INDONESIAN):'' @ [LF]
                      @ dialogueTimeline (timedDialogues inp))] else [])
     @ (if cameraMovement inp \<noteq> [] \<and> cameraMovement inp \<noteq> js ''Automatic''
        then [Text (js ''CAMERA MOVEMENT PREFERENCE: '' @ cameraMovement inp)] else [])
     @ (if tone inp \<noteq> [] \<and> tone inp \<noteq> js ''Automatic''
        then [Text (js ''TONE PREFERENCE: '' @ tone inp)] else [])"
    unfolding parts_def Let_def push_def truthy_def hasValidAction_iff hasValidDialogue_iff
    by (simp split: option.splits)
  show "\<forall>req. Request req \<in> set (fst (generateVeoPrompt rt inp)) \<longrightarrow>
         contents_parts req = parts inp"
    by (auto dest!: request_event simp: request_def)
  show "credential_present rt \<and> required_input_present inp \<longrightarrow>
         Request (request (parts inp)) \<in> set (fst (generateVeoPrompt rt inp))"
    by (simp add: request_made)
qed

lemma castle_trims:
  "trim (js ''Knight points'') = js ''Knight points''"
  "trim (js '' '') = []"
  "trim (js '' Knight walks '') = js ''Knight walks''"
  "trim (js ''Mau pergi kemana? '') = js ''Mau pergi kemana?''"
  by (simp_all add: trim_def isWhiteSpace_def js_def)

lemma castle_timeline:
  "timeline castle_actions =
     js ''- 5'' @ [EN_DASH] @ js ''? sec: Knight points'' @ [LF]
       @ js ''-   '' @ [EN_DASH] @ js ''2x sec: Knight walks''"
proof -
  have "filter (\<lambda>a. truthy (trim (description a))) castle_actions =
          [castle_actions ! 0, castle_actions ! 2]"
    by (simp add: castle_actions_def castle_trims truthy_def) (simp add: js_def)
  then show ?thesis
    by (simp add: timeline_def action_line_def or_else_def truthy_def castle_actions_def
          castle_trims)
       (simp add: js_def)
qed

lemma castle_dialogueTimeline:
  "dialogueTimeline castle_dialogues =
     js ''- 0'' @ [EN_DASH] @ js ''  sec: '' @ [DQUOTE] @ js ''Mau pergi kemana?'' @ [DQUOTE]"
  by (simp add: dialogueTimeline_def dialogue_line_def or_else_def truthy_def castle_dialogues_def
        castle_trims)
     (simp add: js_def)

theorem parts_in_fixed_order_witness:
  "parts castle_input =
     [InlineData (js ''image/png'') (js ''aGVsbG8=''),
      Text (js ''The user has provided the above image as a visual reference.''),
      Text (js ''ACTION TIMELINE:'' @ [LF]
              @ js ''- 5'' @ [EN_DASH] @ js ''? sec: Knight points'' @ [LF]
              @ js ''-   '' @ [EN_DASH] @ js ''2x sec: Knight walks''),
      Text (js ''DIALOGUE TIMELINE (IN INDONESIAN):'' @ [LF]
              @ js ''- 0'' @ [EN_DASH] @ js ''  sec: '' @ [DQUOTE] @ js ''Mau pergi kemana?''
              @ [DQUOTE]),
      Text (js ''CAMERA MOVEMENT PREFERENCE: '' @ js ''Tilt up''),
      Text (js ''TONE PREFERENCE: '' @ js ''dramatic'')]
   \<and> Request (request (parts castle_input))
       \<in> set (fst (generateVeoPrompt
                    (example_runtime (Some (js ''secret'')) (Inr (js ''{}'')))
                    castle_input))
   \<and> contents_parts (request (parts castle_input)) = parts castle_input"
proof -
  have r: "Request (request (parts castle_input))
       \<in> set (fst (generateVeoPrompt
                    (example_runtime (Some (js ''secret'')) (Inr (js ''{}'')))
                    castle_input))"
    by (rule request_made [OF example_runtime_simps(4) castle_input_valid])
  have a: "\<exists>a\<in>set (actions castle_input). trim (description a) \<noteq> []"
    by (simp add: castle_input_def castle_actions_def castle_trims) (simp add: js_def)
  have d: "\<exists>d\<in>set (timedDialogues castle_input). trim (dialogueText d) \<noteq> []"
    by (simp add: castle_input_def castle_dialogues_def castle_trims) (simp add: js_def)
  have c: "cameraMovement castle_input \<noteq> [] \<and> cameraMovement castle_input \<noteq> js ''Automatic''"
    by (simp add: castle_input_def js_def)
  have t: "tone castle_input \<noteq> [] \<and> tone castle_input \<noteq> js ''Automatic''"
    by (simp add: castle_input_def js_def)
  have i: "image castle_input = Some \<lparr> data = js ''aGVsbG8='', mimeType = js ''image/png'' \<rparr>"
    "actions castle_input = castle_actions" "timedDialogues castle_input = castle_dialogues"
    "cameraMovement castle_input = js ''Tilt up''" "tone castle_input = js ''dramatic''"
    by (simp_all add: castle_input_def)
  from parts_in_fixed_order
         [of castle_input "example_runtime (Some (js ''secret'')) (Inr (js ''{}''))"] a d c t
  have "parts castle_input =
     [InlineData (js ''image/png'') (js ''aGVsbG8=''),
      Text (js ''The user has provided the above image as a visual reference.''),
      Text (js ''ACTION TIMELINE:'' @ [LF]
              @ js ''- 5'' @ [EN_DASH] @ js ''? sec: Knight points'' @ [LF]
              @ js ''-   '' @ [EN_DASH] @ js ''2x sec: Knight walks''),
      Text (js ''DIALOGUE TIMELINE (IN INDONESIAN):'' @ [LF]
              @ js ''- 0'' @ [EN_DASH] @ js ''  sec: '' @ [DQUOTE] @ js ''Mau pergi kemana?''
              @ [DQUOTE]),
      Text (js ''CAMERA MOVEMENT PREFERENCE: '' @ js ''Tilt up''),
      Text (js ''TONE PREFERENCE: '' @ js ''dramatic'')]"
    by (simp add: i castle_timeline castle_dialogueTimeline)
  moreover have "contents_parts (request (parts castle_input)) = parts castle_input"
    by (simp add: request_def)
  ultimately show ?thesis
    using r by blast
qed


section \<open>The rendered timelines\<close>

text \<open>
  C3. The rendered action timeline is the lines of the entries whose trimmed description is
  not empty, one line for each, in the order of the input list, joined with a newline; a
  line is \<open>- \<close>, the start time (\<open>0\<close> if it is the empty string), an en dash, the end time
  (\<open>?\<close> if it is the empty string), \<open> sec: \<close> and the trimmed description. The dialogue
  timeline is rendered in the same way, with the trimmed text between quotation marks.
\<close>

theorem timeline_one_line_per_valid_entry_in_input_order:
  "timeline as =
     join [LF]
       (map (\<lambda>a. js ''- '' @ (if Action.startTime a = [] then js ''0'' else Action.startTime a)
                  @ [EN_DASH] @ (if Action.endTime a = [] then js ''?'' else Action.endTime a)
                  @ js '' sec: '' @ trim (description a))
            (filter (\<lambda>a. trim (description a) \<noteq> []) as))
   \<and> dialogueTimeline ds =
     join [LF]
       (map (\<lambda>d. js ''- ''
                  @ (if TimedDialogue.startTime d = [] then js ''0'' else TimedDialogue.startTime d)
                  @ [EN_DASH]
                  @ (if TimedDialogue.endTime d = [] then js ''?'' else TimedDialogue.endTime d)
                  @ js '' sec: '' @ [DQUOTE] @ trim (dialogueText d) @ [DQUOTE])
            (filter (\<lambda>d. trim (dialogueText d) \<noteq> []) ds))"
proof -
  have a: "action_line =
      (\<lambda>a. js ''- '' @ (if Action.startTime a = [] then js ''0'' else Action.startTime a)
                  @ [EN_DASH] @ (if Action.endTime a = [] then js ''?'' else Action.endTime a)
                  @ js '' sec: '' @ trim (description a))"
    by (rule ext) (simp add: action_line_def or_else_def truthy_def)
  have d: "dialogue_line =
      (\<lambda>d. js ''- ''
                  @ (if TimedDialogue.startTime d = [] then js ''0'' else TimedDialogue.startTime d)
                  @ [EN_DASH]
                  @ (if TimedDialogue.endTime d = [] then js ''?'' else TimedDialogue.endTime d)
                  @ js '' sec: '' @ [DQUOTE] @ trim (dialogueText d) @ [DQUOTE])"
    by (rule ext) (simp add: dialogue_line_def or_else_def truthy_def)
  show ?thesis
    unfolding timeline_def dialogueTimeline_def truthy_def a d by simp
qed

theorem timeline_one_line_per_valid_entry_in_input_order_witness:
  "filter (\<lambda>a. trim (description a) \<noteq> []) castle_actions
     = [castle_actions ! 0, castle_actions ! 2]
   \<and> timeline castle_actions =
       js ''- 5'' @ [EN_DASH] @ js ''? sec: Knight points'' @ [LF]
         @ js ''-   '' @ [EN_DASH] @ js ''2x sec: Knight walks''
   \<and> dialogueTimeline (timedDialogues knight_input) =
       js ''- 0'' @ [EN_DASH] @ js ''2 sec: '' @ [DQUOTE] @ js ''Mau pergi kemana?'' @ [DQUOTE]"
proof -
  have f: "filter (\<lambda>a. trim (description a) \<noteq> []) castle_actions
             = [castle_actions ! 0, castle_actions ! 2]"
    by (simp add: castle_actions_def castle_trims) (simp add: js_def)
  have k: "trim (js ''Mau pergi kemana?'') = js ''Mau pergi kemana?''"
    by (simp add: trim_def isWhiteSpace_def js_def)
  from timeline_one_line_per_valid_entry_in_input_order
         [of castle_actions "timedDialogues knight_input"]
  have "timeline castle_actions =
       js ''- 5'' @ [EN_DASH] @ js ''? sec: Knight points'' @ [LF]
         @ js ''-   '' @ [EN_DASH] @ js ''2x sec: Knight walks''
     \<and> dialogueTimeline (timedDialogues knight_input) =
       js ''- 0'' @ [EN_DASH] @ js ''2 sec: '' @ [DQUOTE] @ js ''Mau pergi kemana?'' @ [DQUOTE]"
    unfolding f by (simp add: castle_actions_def castle_trims knight_input_def k) (simp add: js_def)
  with f show ?thesis by blast
qed

lemma join_contains:
  "x \<in> set xs \<Longrightarrow> \<exists>before after. join sep xs = before @ x @ after"
proof (induction sep xs rule: join.induct)
  case (1 sep)
  then show ?case by simp
next
  case (2 sep y)
  then have "join sep [y] = [] @ x @ []" by simp
  then show ?case by blast
next
  case (3 sep y z zs)
  show ?case
  proof (cases "x = y")
    case True
    then have "join sep (y # z # zs) = [] @ x @ (sep @ join sep (z # zs))" by simp
    then show ?thesis by blast
  next
    case False
    with 3 obtain b a where "join sep (z # zs) = b @ x @ a" by auto
    then have "join sep (y # z # zs) = (y @ sep @ b) @ x @ a" by simp
    then show ?thesis by blast
  qed
qed

text \<open>
  C10. In the line of an entry whose trimmed text is not empty, a start time or end time
  that is not the empty string stands as it was given, blanks included; \<open>0\<close> and \<open>?\<close> stand
  only for the empty string. The rendered timeline contains that line.
\<close>

theorem time_defaults_only_for_empty_string:
  "(a \<in> set as \<and> trim (description a) \<noteq> [] \<longrightarrow>
      (\<exists>before after.
         timeline as =
           before
           @ (js ''- '' @ (if Action.startTime a = [] then js ''0'' else Action.startTime a)
                @ [EN_DASH] @ (if Action.endTime a = [] then js ''?'' else Action.endTime a)
                @ js '' sec: '' @ trim (description a))
           @ after))
   \<and> (d \<in> set ds \<and> trim (dialogueText d) \<noteq> [] \<longrightarrow>
      (\<exists>before after.
         dialogueTimeline ds =
           before
           @ (js ''- ''
                @ (if TimedDialogue.startTime d = [] then js ''0'' else TimedDialogue.startTime d)
                @ [EN_DASH]
                @ (if TimedDialogue.endTime d = [] then js ''?'' else TimedDialogue.endTime d)
                @ js '' sec: '' @ [DQUOTE] @ trim (dialogueText d) @ [DQUOTE])
           @ after))"
proof (intro conjI impI)
  assume "a \<in> set as \<and> trim (description a) \<noteq> []"
  then have "action_line a
               \<in> set (map action_line (filter (\<lambda>a. truthy (trim (description a))) as))"
    by (simp add: truthy_def)
  from join_contains [OF this, of "[LF]"] obtain b c where
    "timeline as = b @ action_line a @ c"
    unfolding timeline_def by blast
  moreover have "action_line a =
      js ''- '' @ (if Action.startTime a = [] then js ''0'' else Action.startTime a)
        @ [EN_DASH] @ (if Action.endTime a = [] then js ''?'' else Action.endTime a)
        @ js '' sec: '' @ trim (description a)"
    by (simp add: action_line_def or_else_def truthy_def)
  ultimately have "timeline as =
           b
           @ (js ''- '' @ (if Action.startTime a = [] then js ''0'' else Action.startTime a)
                @ [EN_DASH] @ (if Action.endTime a = [] then js ''?'' else Action.endTime a)
                @ js '' sec: '' @ trim (description a))
           @ c"
    by (simp only:)
  then show "\<exists>before after.
         timeline as =
           before
           @ (js ''- '' @ (if Action.startTime a = [] then js ''0'' else Action.startTime a)
                @ [EN_DASH] @ (if Action.endTime a = [] then js ''?'' else Action.endTime a)
                @ js '' sec: '' @ trim (description a))
           @ after"
    by blast
next
  assume "d \<in> set ds \<and> trim (dialogueText d) \<noteq> []"
  then have "dialogue_line d
               \<in> set (map dialogue_line (filter (\<lambda>d. truthy (trim (dialogueText d))) ds))"
    by (simp add: truthy_def)
  from join_contains [OF this, of "[LF]"] obtain b c where
    "dialogueTimeline ds = b @ dialogue_line d @ c"
    unfolding dialogueTimeline_def by blast
  moreover have "dialogue_line d =
      js ''- ''
        @ (if TimedDialogue.startTime d = [] then js ''0'' else TimedDialogue.startTime d)
        @ [EN_DASH]
        @ (if TimedDialogue.endTime d = [] then js ''?'' else TimedDialogue.endTime d)
        @ js '' sec: '' @ [DQUOTE] @ trim (dialogueText d) @ [DQUOTE]"
    by (simp add: dialogue_line_def or_else_def truthy_def)
  ultimately have "dialogueTimeline ds =
           b
           @ (js ''- ''
                @ (if TimedDialogue.startTime d = [] then js ''0'' else TimedDialogue.startTime d)
                @ [EN_DASH]
                @ (if TimedDialogue.endTime d = [] then js ''?'' else TimedDialogue.endTime d)
                @ js '' sec: '' @ [DQUOTE] @ trim (dialogueText d) @ [DQUOTE])
           @ c"
    by (simp only:)
  then show "\<exists>before after.
         dialogueTimeline ds =
           before
           @ (js ''- ''
                @ (if TimedDialogue.startTime d = [] then js ''0'' else TimedDialogue.startTime d)
                @ [EN_DASH]
                @ (if TimedDialogue.endTime d = [] then js ''?'' else TimedDialogue.endTime d)
                @ js '' sec: '' @ [DQUOTE] @ trim (dialogueText d) @ [DQUOTE])
           @ after"
    by blast
qed

theorem time_defaults_only_for_empty_string_witness:
  "castle_actions ! 2 \<in> set castle_actions
   \<and> Action.startTime (castle_actions ! 2) = js ''  ''
   \<and> Action.endTime (castle_actions ! 2) = js ''2x''
   \<and> trim (description (castle_actions ! 2)) = js ''Knight walks''
   \<and> (\<exists>before after.
         timeline castle_actions =
           before @ (js ''- '' @ js ''  '' @ [EN_DASH] @ js ''2x'' @ js '' sec: ''
                       @ js ''Knight walks'') @ after)
   \<and> castle_dialogues ! 0 \<in> set castle_dialogues
   \<and> TimedDialogue.startTime (castle_dialogues ! 0) = []
   \<and> TimedDialogue.endTime (castle_dialogues ! 0) = js '' ''
   \<and> (\<exists>before after.
         dialogueTimeline castle_dialogues =
           before @ (js ''- '' @ js ''0'' @ [EN_DASH] @ js '' '' @ js '' sec: '' @ [DQUOTE]
                       @ js ''Mau pergi kemana?'' @ [DQUOTE]) @ after)"
proof -
  have a: "castle_actions ! 2 \<in> set castle_actions"
    "Action.startTime (castle_actions ! 2) = js ''  ''"
    "Action.endTime (castle_actions ! 2) = js ''2x''"
    "trim (description (castle_actions ! 2)) = js ''Knight walks''"
    by (simp_all add: castle_actions_def castle_trims)
  have d: "castle_dialogues ! 0 \<in> set castle_dialogues"
    "TimedDialogue.startTime (castle_dialogues ! 0) = []"
    "TimedDialogue.endTime (castle_dialogues ! 0) = js '' ''"
    "trim (dialogueText (castle_dialogues ! 0)) = js ''Mau pergi kemana?''"
    by (simp_all add: castle_dialogues_def castle_trims)
  have ne: "js ''  '' \<noteq> []" "js ''2x'' \<noteq> []" "js '' '' \<noteq> []" "js ''Knight walks'' \<noteq> []"
    "js ''Mau pergi kemana?'' \<noteq> []"
    by (simp_all add: js_def)
  from time_defaults_only_for_empty_string
         [of "castle_actions ! 2" castle_actions "castle_dialogues ! 0" castle_dialogues]
  have "(\<exists>before after.
         timeline castle_actions =
           before @ (js ''- '' @ js ''  '' @ [EN_DASH] @ js ''2x'' @ js '' sec: ''
                       @ js ''Knight walks'') @ after)
     \<and> (\<exists>before after.
         dialogueTimeline castle_dialogues =
           before @ (js ''- '' @ js ''0'' @ [EN_DASH] @ js '' '' @ js '' sec: '' @ [DQUOTE]
                       @ js ''Mau pergi kemana?'' @ [DQUOTE]) @ after)"
    by (simp only: a d ne simp_thms if_True if_False)
  with a d show ?thesis by blast
qed


section \<open>The preference parts\<close>

lemma labelled_simps:
  "\<not> labelled camera_label (InlineData m d)"
  "\<not> labelled tone_label (InlineData m d)"
  "\<not> labelled camera_label
       (Text (js ''The user has provided the above image as a visual reference.''))"
  "\<not> labelled tone_label
       (Text (js ''The user has provided the above image as a visual reference.''))"
  "\<not> labelled camera_label (Text (js ''ACTION TIMELINE:'' @ x))"
  "\<not> labelled tone_label (Text (js ''ACTION TIMELINE:'' @ x))"
  "\<not> labelled camera_label (Text (js ''DIALOGUE TIMELINE (IN INDONESIAN):'' @ x))"
  "\<not> labelled tone_label (Text (js ''DIALOGUE TIMELINE (IN INDONESIAN):'' @ x))"
  "\<not> labelled camera_label (Text (js ''TONE PREFERENCE: '' @ x))"
  "\<not> labelled tone_label (Text (js ''CAMERA MOVEMENT PREFERENCE: '' @ x))"
  "labelled camera_label (Text (js ''CAMERA MOVEMENT PREFERENCE: '' @ x))"
  "labelled tone_label (Text (js ''TONE PREFERENCE: '' @ x))"
  by (simp_all add: labelled_def startsWith_def camera_label_def tone_label_def js_def)

text \<open>
  C7. Among the parts, those that begin with the label \<open>CAMERA MOVEMENT PREFERENCE: \<close> are:
  none when \<open>cameraMovement\<close> is the empty string or \<open>Automatic\<close>; otherwise exactly one, the
  label followed by the value as it was given. The same holds of \<open>TONE PREFERENCE: \<close> and
  \<open>tone\<close>.
\<close>

theorem preference_part_omitted_iff_empty_or_automatic:
  "filter (labelled camera_label) (parts inp) =
     (if cameraMovement inp = [] \<or> cameraMovement inp = js ''Automatic'' then []
      else [Text (js ''CAMERA MOVEMENT PREFERENCE: '' @ cameraMovement inp)])
   \<and> filter (labelled tone_label) (parts inp) =
     (if tone inp = [] \<or> tone inp = js ''Automatic'' then []
      else [Text (js ''TONE PREFERENCE: '' @ tone inp)])"
  unfolding parts_def Let_def push_def truthy_def
  by (simp add: labelled_simps split: option.splits)

theorem preference_part_omitted_iff_empty_or_automatic_witness:
  "cameraMovement castle_input = js ''Tilt up''
   \<and> filter (labelled camera_label) (parts castle_input)
       = [Text (js ''CAMERA MOVEMENT PREFERENCE: '' @ js ''Tilt up'')]
   \<and> tone knight_input = js ''Automatic''
   \<and> filter (labelled tone_label) (parts knight_input) = []"
proof -
  have c: "cameraMovement castle_input = js ''Tilt up''"
    and t: "tone knight_input = js ''Automatic''"
    by (simp_all add: castle_input_def knight_input_def)
  have n: "js ''Tilt up'' \<noteq> []" "js ''Tilt up'' \<noteq> js ''Automatic''"
    by (simp_all add: js_def)
  from preference_part_omitted_iff_empty_or_automatic [of castle_input]
       preference_part_omitted_iff_empty_or_automatic [of knight_input] c t n
  show ?thesis by simp
qed

end
